theory Spec2Isabelle
  imports Main "HOL-Library.Word" "HOL-Library.Sublist"
begin

unbundle bit_operations_syntax

section \<open>buffer/ring.go: the ring buffer\<close>

text \<open>
  Go's \<open>uint32\<close> is a 32-bit word: subtraction and addition wrap around, \<open>>>\<close> is
  \<open>drop_bit\<close>, \<open>|\<close> is \<open>OR\<close>, \<open>&\<close> is \<open>AND\<close>.
\<close>

type_synonym uint32 = "32 word"

text \<open>\<open>powerOf2\<close>, lines 90-100: the bit-smearing round-up, statement by statement.\<close>

definition powerOf2 :: "uint32 \<Rightarrow> uint32" where
  "powerOf2 v0 =
    (let v1 = v0 - 1;
         v2 = v1 OR drop_bit 1 v1;
         v3 = v2 OR drop_bit 2 v2;
         v4 = v3 OR drop_bit 4 v3;
         v5 = v4 OR drop_bit 8 v4;
         v6 = v5 OR drop_bit 16 v5
     in v6 + 1)"

text \<open>
  The struct \<open>RingBuffer[T]\<close>, lines 16-23. The slice \<open>s\<close> is a list; the field \<open>end\<close>
  is called \<open>end_ix\<close> here.
\<close>

record 'a RingBuffer =
  s :: "'a list"
  cap :: uint32
  modMask :: uint32
  start :: uint32
  end_ix :: uint32
  full :: bool

text \<open>
  \<open>NewRingBuffer\<close>, lines 7-14. \<open>make([]T, capacity)\<close> is \<open>capacity\<close> copies of the zero
  value of \<open>T\<close>, which is the parameter \<open>z\<close>.
\<close>

definition NewRingBuffer :: "'a \<Rightarrow> uint32 \<Rightarrow> 'a RingBuffer" where
  "NewRingBuffer z n =
    (let capacity = powerOf2 n
     in \<lparr>s = replicate (unat capacity) z, cap = capacity, modMask = capacity - 1,
         start = 0, end_ix = 0, full = False\<rparr>)"

text \<open>
  A slice index out of range is a run-time panic in Go. \<open>Push\<close> (lines 54-63) and \<open>Pop\<close>
  (lines 65-74) return \<open>Inl IndexOutOfRange\<close> for it, and otherwise the Go result together
  with the updated buffer.
\<close>

datatype panic = IndexOutOfRange

definition Push :: "'a \<Rightarrow> 'a RingBuffer \<Rightarrow> panic + bool \<times> 'a RingBuffer" where
  "Push v l =
    (if full l then Inr (False, l)
     else let slot = end_ix l in
       if unat slot < length (s l) then
         (let e' = (end_ix l + 1) AND modMask l
          in Inr (True, l\<lparr>s := (s l)[unat slot := v], end_ix := e', full := (start l = e')\<rparr>))
       else Inl IndexOutOfRange)"

definition Pop :: "'a \<Rightarrow> 'a RingBuffer \<Rightarrow> panic + ('a \<times> bool) \<times> 'a RingBuffer" where
  "Pop z l =
    (if start l = end_ix l \<and> \<not> full l then Inr ((z, False), l)
     else if unat (start l) < length (s l) then
       Inr ((s l ! unat (start l), True),
            l\<lparr>start := (start l + 1) AND modMask l, full := False\<rparr>)
     else Inl IndexOutOfRange)"

section \<open>The ring buffer of capacity zero\<close>

lemma powerOf2_0: "powerOf2 0 = 0"
  by (simp add: powerOf2_def Let_def)

lemma minus_one_uint32: "(- 1 :: uint32) = 4294967295"
  by simp

lemma unat_minus_one_uint32: "unat (- 1 :: uint32) = 4294967295"
  unfolding minus_one_uint32 by simp

text \<open>
  C10. For the buffer returned by \<open>NewRingBuffer(0)\<close> the computed capacity is 0, the backing
  slice is empty and the mask is \<open>2^32 - 1\<close>; the buffer is not full, so the first \<open>Push\<close>
  indexes position 0 of the empty slice and panics instead of returning false.
\<close>

theorem ring_zero_capacity_push_panics:
  "cap (NewRingBuffer z 0) = 0
   \<and> s (NewRingBuffer z 0) = []
   \<and> unat (modMask (NewRingBuffer z 0)) = 2 ^ 32 - 1
   \<and> \<not> full (NewRingBuffer z 0)
   \<and> unat (end_ix (NewRingBuffer z 0)) = 0
   \<and> Push v (NewRingBuffer z 0) = Inl IndexOutOfRange"
  by (simp add: NewRingBuffer_def powerOf2_0 Push_def Let_def unat_minus_one_uint32)

end
